theory Spec2Isabelle
  imports Main "HOL-Library.Word"
begin

section \<open>SR-VNC: the capture server and the viewing client\<close>

text \<open>
  A shallow embedding of \<^verbatim>\<open>src/sr_vnc/server.py\<close> and \<^verbatim>\<open>src/sr_vnc/client.py\<close>.
  Python \<^verbatim>\<open>bytes\<close> are lists of 8-bit words, Python integers are \<open>int\<close> (lengths are
  \<open>nat\<close>), and an exception is a value of type \<open>error\<close>. A method that mutates
  \<^verbatim>\<open>self\<close> returns the object after the call together with the exception it raised, if
  any: Python keeps every mutation made before a \<^verbatim>\<open>raise\<close>.
\<close>

subsection \<open>Exceptions\<close>

datatype error =
    JSONDecodeError    \<comment> \<open>\<^verbatim>\<open>json.loads\<close> on a text that is not JSON\<close>
  | KeyError
  | TypeError
  | AttributeError
  | ValueError
  | OverflowError
  | IndexError
  | StructError        \<comment> \<open>\<^verbatim>\<open>struct.error\<close>\<close>
  | RuntimeError       \<comment> \<open>\<^verbatim>\<open>RuntimeError("Failed to encode frame")\<close>\<close>
  | ScreenShotError    \<comment> \<open>raised by \<^verbatim>\<open>mss\<close> when a grab fails\<close>
  | CvError            \<comment> \<open>\<^verbatim>\<open>cv2.error\<close>\<close>

subsection \<open>Bytes and \<^verbatim>\<open>struct\<close>\<close>

type_synonym byte = "8 word"
type_synonym bytes = "byte list"

text \<open>
  \<^verbatim>\<open>struct.pack("!I", n)\<close>: the four bytes of \<open>n\<close>, most significant first;
  \<^verbatim>\<open>struct.error\<close> when \<open>n\<close> does not fit 32 bits. The argument is always a
  \<^verbatim>\<open>len(...)\<close> here, so it is a \<open>nat\<close>.
\<close>

definition struct_pack_I :: "nat \<Rightarrow> error + bytes" where
  "struct_pack_I n =
     (if n < 2 ^ 32
      then Inr [of_nat (n div 2 ^ 24), of_nat (n div 2 ^ 16), of_nat (n div 2 ^ 8), of_nat n]
      else Inl StructError)"

text \<open>
  \<^verbatim>\<open>struct.unpack("!I", b)[0]\<close>: the buffer must hold exactly four bytes.
\<close>

definition struct_unpack_I :: "bytes \<Rightarrow> error + nat" where
  "struct_unpack_I b =
     (case b of
        [b0, b1, b2, b3] \<Rightarrow>
          Inr (unat b0 * 2 ^ 24 + unat b1 * 2 ^ 16 + unat b2 * 2 ^ 8 + unat b3)
      | _ \<Rightarrow> Inl StructError)"

subsection \<open>The client's \<^verbatim>\<open>FramePacket\<close>\<close>

record FramePacket =
  size_fp :: nat
  payload_fp :: bytes

text \<open>
  \<^verbatim>\<open>FramePacket.parse\<close>. The slices \<^verbatim>\<open>raw[:4]\<close> and \<^verbatim>\<open>raw[4:4 + size]\<close> never raise:
  they stop at the end of \<^verbatim>\<open>raw\<close>.
\<close>

definition parse :: "bytes \<Rightarrow> error + FramePacket" where
  "parse raw =
     (case struct_unpack_I (take 4 raw) of
        Inl e \<Rightarrow> Inl e
      | Inr sz \<Rightarrow> Inr \<lparr>size_fp = sz, payload_fp = take sz (drop 4 raw)\<rparr>)"

subsection \<open>JSON values, as \<^verbatim>\<open>json.loads\<close> returns them\<close>

text \<open>
  A Python \<^verbatim>\<open>float\<close> is kept exactly: a finite IEEE double is \<open>m * 2 ^ e\<close> for integers
  \<open>m\<close> and \<open>e\<close>. No arithmetic is done on floats; they are only tested for zero and
  truncated by \<^verbatim>\<open>int\<close>.
\<close>

datatype pyfloat = Finite int int | Infinite | NaN

text \<open>
  A \<^verbatim>\<open>dict\<close> is an association list with distinct keys (\<^verbatim>\<open>json.loads\<close> has already
  resolved repeated keys); \<^verbatim>\<open>d.get(k)\<close> is \<open>map_of d k\<close>.
\<close>

datatype json =
    JNull
  | JBool bool
  | JInt int
  | JFloat pyfloat
  | JString string
  | JArray "json list"
  | JObject "(string \<times> json) list"

text \<open>Python truth value testing, as used by \<^verbatim>\<open>x or y\<close>.\<close>

fun truthy :: "json \<Rightarrow> bool" where
  "truthy JNull = False"
| "truthy (JBool b) = b"
| "truthy (JInt n) = (n \<noteq> 0)"
| "truthy (JFloat f) = (case f of Finite m e \<Rightarrow> m \<noteq> 0 | Infinite \<Rightarrow> True | NaN \<Rightarrow> True)"
| "truthy (JString s) = (s \<noteq> [])"
| "truthy (JArray xs) = (xs \<noteq> [])"
| "truthy (JObject kvs) = (kvs \<noteq> [])"

text \<open>
  The builtin \<^verbatim>\<open>int(x)\<close> on a JSON value. Parsing a string is the library's business:
  \<open>int_of_str\<close> stands for \<^verbatim>\<open>int\<close> on \<^verbatim>\<open>str\<close>, with \<open>None\<close> for \<^verbatim>\<open>ValueError\<close>.
  A float is truncated towards zero.
\<close>

fun py_int :: "(string \<Rightarrow> int option) \<Rightarrow> json \<Rightarrow> error + int" where
  "py_int int_of_str JNull = Inl TypeError"
| "py_int int_of_str (JBool b) = Inr (if b then 1 else 0)"
| "py_int int_of_str (JInt n) = Inr n"
| "py_int int_of_str (JFloat f) =
     (case f of
        Finite m e \<Rightarrow>
          Inr (if 0 \<le> e then m * 2 ^ nat e else sgn m * (\<bar>m\<bar> div 2 ^ nat (- e)))
      | Infinite \<Rightarrow> Inl OverflowError
      | NaN \<Rightarrow> Inl ValueError)"
| "py_int int_of_str (JString s) =
     (case int_of_str s of None \<Rightarrow> Inl ValueError | Some n \<Rightarrow> Inr n)"
| "py_int int_of_str (JArray xs) = Inl TypeError"
| "py_int int_of_str (JObject kvs) = Inl TypeError"

text \<open>Python list indexing \<^verbatim>\<open>xs[i]\<close>: a negative index counts from the end.\<close>

definition py_index :: "'a list \<Rightarrow> int \<Rightarrow> error + 'a" where
  "py_index xs i =
     (if 0 \<le> i \<and> i < int (length xs) then Inr (xs ! nat i)
      else if i < 0 \<and> - int (length xs) \<le> i then Inr (xs ! nat (int (length xs) + i))
      else Inl IndexError)"

subsection \<open>The server's \<^verbatim>\<open>ControlMessage\<close>\<close>

record ControlMessage =
  type_cm :: json
  payload_cm :: json

text \<open>
  \<^verbatim>\<open>ControlMessage.from_json\<close>. \<open>loads\<close> stands for \<^verbatim>\<open>json.loads\<close>. \<^verbatim>\<open>data["type"]\<close>
  raises \<^verbatim>\<open>KeyError\<close> on a dict without the key and \<^verbatim>\<open>TypeError\<close> on every other JSON
  value; \<^verbatim>\<open>data.get("payload", {})\<close> is only reached for a dict.
\<close>

definition from_json :: "(string \<Rightarrow> error + json) \<Rightarrow> string \<Rightarrow> error + ControlMessage" where
  "from_json loads message =
     (case loads message of
        Inl e \<Rightarrow> Inl e
      | Inr data \<Rightarrow>
          (case data of
             JObject kvs \<Rightarrow>
               (case map_of kvs ''type'' of
                  None \<Rightarrow> Inl KeyError
                | Some t \<Rightarrow>
                    Inr \<lparr>type_cm = t,
                         payload_cm = (case map_of kvs ''payload'' of
                                         None \<Rightarrow> JObject []
                                       | Some p \<Rightarrow> p)\<rparr>)
           | _ \<Rightarrow> Inl TypeError))"

subsection \<open>The server\<close>

text \<open>
  The registered endpoint is the pair \<^verbatim>\<open>(host, port)\<close> that \<^verbatim>\<open>handle_control\<close> stores:
  the host is whatever JSON value the message carried (or the peer's address, a string),
  the port is an \<^verbatim>\<open>int\<close>.
\<close>

type_synonym addr = "json \<times> int"

type_synonym image = bytes

text \<open>A monitor of \<^verbatim>\<open>mss\<close>: left, top, width, height.\<close>

type_synonym region = "int \<times> int \<times> int \<times> int"

datatype log_record =
    ControlClientConnected "string \<times> int"
  | RegisteredEndpoint addr
  | ReceivedControlCommand ControlMessage
  | ServerReady string int string int

text \<open>
  What the server does to the world, in order: the logging calls, the screen grab, the
  JPEG encoding, the datagrams handed to the transport, and the sleeps of the send loop.
\<close>

datatype event =
    LogInfo log_record
  | LogDebug log_record
  | Grab region
  | ImEncode image
  | SendTo bytes addr
  | Sleep

text \<open>
  \<^verbatim>\<open>SRVNCServer\<close>. \<open>transport\<close> is \<open>True\<close> once \<^verbatim>\<open>start\<close> has stored the datagram
  transport in \<^verbatim>\<open>self._transport\<close>; \<open>client_addr\<close> is \<^verbatim>\<open>self._client_addr\<close>. The period
  \<^verbatim>\<open>frame_interval\<close> only sets how long a \<open>Sleep\<close> lasts and is left out.
\<close>

record server =
  control_host :: string
  control_port :: int
  video_host :: string
  video_port :: int
  monitor :: int
  transport :: bool
  client_addr :: "addr option"
  trace :: "event list"

text \<open>\<^verbatim>\<open>SRVNCServer()\<close> with the defaults of \<^verbatim>\<open>__init__\<close>.\<close>

definition init_server :: server where
  "init_server =
     \<lparr>control_host = ''0.0.0.0'', control_port = 8765,
      video_host = ''0.0.0.0'', video_port = 9999,
      monitor = 0, transport = False, client_addr = None, trace = []\<rparr>"

text \<open>
  The screen and the codec at one tick: the monitors \<^verbatim>\<open>mss\<close> reports, what a grab of a
  region returns, \<^verbatim>\<open>cv2.cvtColor(np.array(img), cv2.COLOR_BGRA2BGR)\<close>, and the pair
  \<^verbatim>\<open>(success, encoded)\<close> of \<^verbatim>\<open>cv2.imencode(".jpg", frame, ...)\<close>.
\<close>

record screen =
  monitors :: "region list"
  grab :: "region \<Rightarrow> error + image"
  cvtColor :: "image \<Rightarrow> image"
  imencode :: "image \<Rightarrow> bool \<times> bytes"

definition log_event :: "event \<Rightarrow> server \<Rightarrow> server" where
  "log_event ev s = s\<lparr>trace := trace s @ [ev]\<rparr>"

text \<open>\<^verbatim>\<open>SRVNCServer.capture_frame\<close>.\<close>

definition capture_frame :: "screen \<Rightarrow> server \<Rightarrow> (error + bytes) \<times> server" where
  "capture_frame env s =
     (case py_index (monitors env) (monitor s) of
        Inl e \<Rightarrow> (Inl e, s)
      | Inr mon \<Rightarrow>
          (let s1 = log_event (Grab mon) s in
           case grab env mon of
             Inl e \<Rightarrow> (Inl e, s1)
           | Inr sct_img \<Rightarrow>
               (let frame = cvtColor env sct_img;
                    s2 = log_event (ImEncode frame) s1
                in case imencode env frame of
                     (success, encoded) \<Rightarrow>
                       if \<not> success then (Inl RuntimeError, s2) else (Inr encoded, s2))))"

text \<open>\<^verbatim>\<open>SRVNCServer.send_frame\<close>: one tick of the send loop.\<close>

definition send_frame :: "screen \<Rightarrow> server \<Rightarrow> error option \<times> server" where
  "send_frame env s =
     (case client_addr s of
        None \<Rightarrow> (None, s)
      | Some a \<Rightarrow>
          if \<not> transport s then (None, s)
          else
            (case capture_frame env s of
               (Inl e, s1) \<Rightarrow> (Some e, s1)
             | (Inr frame, s1) \<Rightarrow>
                 (case struct_pack_I (length frame) of
                    Inl e \<Rightarrow> (Some e, s1)
                  | Inr header \<Rightarrow> (None, log_event (SendTo (header @ frame) a) s1))))"

text \<open>\<^verbatim>\<open>SRVNCServer.apply_control\<close>: the placeholder only logs the command.\<close>

definition apply_control :: "ControlMessage \<Rightarrow> server \<Rightarrow> server" where
  "apply_control control s = log_event (LogDebug (ReceivedControlCommand control)) s"

text \<open>
  The body of the \<^verbatim>\<open>async for\<close> of \<^verbatim>\<open>handle_control\<close>, for one message of a
  connection whose peer is \<open>remote_address\<close>. \<^verbatim>\<open>control.payload.get\<close> raises
  \<^verbatim>\<open>AttributeError\<close> when the payload is not a dict.
\<close>

definition handle_message ::
  "(string \<Rightarrow> error + json) \<Rightarrow> (string \<Rightarrow> int option) \<Rightarrow> string \<times> int \<Rightarrow> string \<Rightarrow> server
     \<Rightarrow> error option \<times> server" where
  "handle_message loads int_of_str remote_address message s =
     (case from_json loads message of
        Inl e \<Rightarrow> (Some e, s)
      | Inr control \<Rightarrow>
          if type_cm control = JString ''register'' then
            (case payload_cm control of
               JObject kvs \<Rightarrow>
                 (let got = (case map_of kvs ''host'' of None \<Rightarrow> JNull | Some h \<Rightarrow> h);
                      host = (if truthy got then got else JString (fst remote_address))
                  in case map_of kvs ''port'' of
                       None \<Rightarrow> (Some KeyError, s)
                     | Some v \<Rightarrow>
                         (case py_int int_of_str v of
                            Inl e \<Rightarrow> (Some e, s)
                          | Inr port \<Rightarrow>
                              (None,
                               log_event (LogInfo (RegisteredEndpoint (host, port)))
                                 (s\<lparr>client_addr := Some (host, port)\<rparr>))))
             | _ \<Rightarrow> (Some AttributeError, s))
          else (None, apply_control control s))"

text \<open>
  The \<^verbatim>\<open>async for\<close> itself, over the messages the connection delivers until it closes.
  An exception leaves the loop, and with it the handler: the remaining messages are not
  read.
\<close>

fun handle_control_loop ::
  "(string \<Rightarrow> error + json) \<Rightarrow> (string \<Rightarrow> int option) \<Rightarrow> string \<times> int \<Rightarrow> string list \<Rightarrow> server
     \<Rightarrow> error option \<times> server" where
  "handle_control_loop loads int_of_str remote_address [] s = (None, s)"
| "handle_control_loop loads int_of_str remote_address (message # rest) s =
     (case handle_message loads int_of_str remote_address message s of
        (Some e, s') \<Rightarrow> (Some e, s')
      | (None, s') \<Rightarrow> handle_control_loop loads int_of_str remote_address rest s')"

text \<open>\<^verbatim>\<open>SRVNCServer.handle_control\<close>.\<close>

definition handle_control ::
  "(string \<Rightarrow> error + json) \<Rightarrow> (string \<Rightarrow> int option) \<Rightarrow> string \<times> int \<Rightarrow> string list \<Rightarrow> server
     \<Rightarrow> error option \<times> server" where
  "handle_control loads int_of_str remote_address messages s =
     handle_control_loop loads int_of_str remote_address messages
       (log_event (LogInfo (ControlClientConnected remote_address)) s)"

text \<open>
  The \<^verbatim>\<open>while True\<close> of \<^verbatim>\<open>start\<close>, run over the screens of finitely many ticks. The loop
  has no exit of its own: it ends only by an exception, which is the \<open>Some\<close> result;
  \<open>None\<close> says that the loop is still running after the ticks given.
\<close>

fun send_loop :: "screen list \<Rightarrow> server \<Rightarrow> error option \<times> server" where
  "send_loop [] s = (None, s)"
| "send_loop (env # envs) s =
     (case send_frame env s of
        (Some e, s') \<Rightarrow> (Some e, s')
      | (None, s') \<Rightarrow> send_loop envs (log_event Sleep s'))"

text \<open>
  \<^verbatim>\<open>SRVNCServer.start\<close>, where both listeners could be bound: the transport is stored,
  the ready line is logged, and the send loop runs.
\<close>

definition start :: "screen list \<Rightarrow> server \<Rightarrow> error option \<times> server" where
  "start envs s =
     send_loop envs
       (log_event
          (LogInfo (ServerReady (video_host s) (video_port s) (control_host s) (control_port s)))
          (s\<lparr>transport := True\<rparr>))"

subsection \<open>The client's receive loop\<close>

datatype client_event = ImShow image | WaitKey

text \<open>
  \<^verbatim>\<open>SRVNCClient.display_frame\<close>. \<open>imdecode\<close> stands for
  \<^verbatim>\<open>cv2.imdecode(np.frombuffer(frame, dtype=np.uint8), cv2.IMREAD_COLOR)\<close>, which returns an
  image or \<^verbatim>\<open>None\<close>, or raises. The state is the list of calls made on the window.
\<close>

definition display_frame ::
  "(bytes \<Rightarrow> error + image option) \<Rightarrow> bytes \<Rightarrow> client_event list
     \<Rightarrow> error option \<times> client_event list" where
  "display_frame imdecode frame shown =
     (case imdecode frame of
        Inl e \<Rightarrow> (Some e, shown)
      | Inr None \<Rightarrow> (None, shown)
      | Inr (Some decoded) \<Rightarrow> (None, shown @ [ImShow decoded, WaitKey]))"

text \<open>
  \<^verbatim>\<open>SRVNCClient.receive_frames\<close>, over the data that finitely many \<^verbatim>\<open>recvfrom\<close> calls
  return. As in the send loop, \<open>Some\<close> is the exception that ended the loop and \<open>None\<close>
  says that it is waiting for the next datagram.
\<close>

fun receive_frames ::
  "(bytes \<Rightarrow> error + image option) \<Rightarrow> bytes list \<Rightarrow> client_event list
     \<Rightarrow> error option \<times> client_event list" where
  "receive_frames imdecode [] shown = (None, shown)"
| "receive_frames imdecode (data # rest) shown =
     (case parse data of
        Inl e \<Rightarrow> (Some e, shown)
      | Inr packet \<Rightarrow>
          (case display_frame imdecode (payload_fp packet) shown of
             (Some e, shown') \<Rightarrow> (Some e, shown')
           | (None, shown') \<Rightarrow> receive_frames imdecode rest shown'))"

subsection \<open>Concrete inputs\<close>

text \<open>
  Wire messages, a peer, screens and a decoder on which the theorems below are run. The
  first message is the one \<^verbatim>\<open>SRVNCClient.register_udp\<close> sends for the default
  \<^verbatim>\<open>listen_port\<close>. \<open>example_loads\<close> is \<^verbatim>\<open>json.loads\<close> and \<open>example_int_of_str\<close> is
  \<^verbatim>\<open>int\<close>, both tabulated on the texts used here; they are applied to no other text.
\<close>

definition msg_register :: string where
  \<open>msg_register = ''{"type": "register", "payload": {"host": null, "port": 10000}}''\<close>

definition msg_register_host :: string where
  \<open>msg_register_host = ''{"type": "register", "payload": {"host": "10.0.0.7", "port": 10001}}''\<close>

definition msg_command :: string where
  \<open>msg_command = ''{"type": "command", "payload": {"raw": "click:100,200"}}''\<close>

definition msg_bogus :: string where
  \<open>msg_bogus = ''{"type": "bogus", "payload": {}}''\<close>

definition msg_garbage :: string where
  \<open>msg_garbage = ''not json''\<close>

definition msg_no_port :: string where
  \<open>msg_no_port = ''{"type": "register", "payload": {"host": "10.0.0.7"}}''\<close>

definition msg_bad_port :: string where
  \<open>msg_bad_port = ''{"type": "register", "payload": {"port": "abc"}}''\<close>

definition example_loads :: "string \<Rightarrow> error + json" where
  "example_loads message =
     (case map_of
        [(msg_register,
          JObject [(''type'', JString ''register''),
                   (''payload'', JObject [(''host'', JNull), (''port'', JInt 10000)])]),
         (msg_register_host,
          JObject [(''type'', JString ''register''),
                   (''payload'', JObject [(''host'', JString ''10.0.0.7''), (''port'', JInt 10001)])]),
         (msg_command,
          JObject [(''type'', JString ''command''),
                   (''payload'', JObject [(''raw'', JString ''click:100,200'')])]),
         (msg_bogus,
          JObject [(''type'', JString ''bogus''), (''payload'', JObject [])]),
         (msg_no_port,
          JObject [(''type'', JString ''register''),
                   (''payload'', JObject [(''host'', JString ''10.0.0.7'')])]),
         (msg_bad_port,
          JObject [(''type'', JString ''register''),
                   (''payload'', JObject [(''port'', JString ''abc'')])])]
        message of
        None \<Rightarrow> Inl JSONDecodeError
      | Some data \<Rightarrow> Inr data)"

definition example_int_of_str :: "string \<Rightarrow> int option" where
  "example_int_of_str s = (if s = ''10000'' then Some 10000 else None)"

definition example_peer :: "string \<times> int" where
  "example_peer = (''192.168.1.5'', 54321)"

definition example_screen :: "bool \<Rightarrow> bytes \<Rightarrow> screen" where
  "example_screen success encoded =
     \<lparr>monitors = [(0, 0, 1920, 1080)],
      grab = (\<lambda>mon. Inr [10, 20, 30, 255]),
      cvtColor = take 3,
      imencode = (\<lambda>frame. (success, encoded))\<rparr>"

definition registered_server :: server where
  "registered_server =
     init_server\<lparr>transport := True, client_addr := Some (JString ''192.168.1.5'', 10000)\<rparr>"

definition example_imdecode :: "bytes \<Rightarrow> error + image option" where
  "example_imdecode frame =
     (if frame = [255, 216, 255] then Inr (Some [10, 20, 30]) else Inr None)"

lemmas example_defs =
  msg_register_def msg_register_host_def msg_command_def
  msg_bogus_def msg_garbage_def msg_no_port_def msg_bad_port_def example_loads_def
  example_int_of_str_def example_peer_def example_screen_def registered_server_def
  init_server_def example_imdecode_def

section \<open>Framing\<close>

text \<open>The four bytes of the header are the base-256 digits of the length.\<close>

lemma be32_recompose:
  fixes n :: nat
  assumes "n < 2 ^ 32"
  shows "n div 2 ^ 24 mod 256 * 2 ^ 24 + n div 2 ^ 16 mod 256 * 2 ^ 16
          + n div 2 ^ 8 mod 256 * 2 ^ 8 + n mod 256 = n"
proof -
  define a where "a = n div 2 ^ 24"
  define b where "b = n div 2 ^ 16"
  define c where "c = n div 2 ^ 8"
  have ba: "b div 256 = a"
    unfolding a_def b_def by (simp add: div_mult2_eq [symmetric])
  have cb: "c div 256 = b"
    unfolding c_def b_def by (simp add: div_mult2_eq [symmetric])
  have nc: "n div 256 = c"
    unfolding c_def by simp
  have a_small: "a < 256"
    unfolding a_def using assms by (simp add: less_mult_imp_div_less)
  have 1: "b = a * 256 + b mod 256" using ba div_mult_mod_eq [of b 256] by simp
  have 2: "c = b * 256 + c mod 256" using cb div_mult_mod_eq [of c 256] by simp
  have 3: "n = c * 256 + n mod 256" using nc div_mult_mod_eq [of n 256] by simp
  have "a mod 256 = a" using a_small by simp
  then have "a mod 256 * 2 ^ 24 + b mod 256 * 2 ^ 16 + c mod 256 * 2 ^ 8 + n mod 256 = n"
    using 1 2 3 by simp
  then show ?thesis unfolding a_def b_def c_def .
qed

lemma unpack_pack_I:
  assumes "n < 2 ^ 32"
  shows "\<exists>header. struct_pack_I n = Inr header \<and> length header = 4
           \<and> struct_unpack_I header = Inr n"
proof -
  let ?h = "[of_nat (n div 2 ^ 24), of_nat (n div 2 ^ 16), of_nat (n div 2 ^ 8), of_nat n] :: bytes"
  have p: "struct_pack_I n = Inr ?h"
    using assms by (simp add: struct_pack_I_def)
  have L: "(2::nat) ^ LENGTH(8) = 256" by simp
  have "unat (of_nat (n div 2 ^ 24) :: byte) * 2 ^ 24 + unat (of_nat (n div 2 ^ 16) :: byte) * 2 ^ 16
          + unat (of_nat (n div 2 ^ 8) :: byte) * 2 ^ 8 + unat (of_nat n :: byte) = n"
    by (simp only: unat_of_nat L be32_recompose [OF assms])
  then have u: "struct_unpack_I ?h = Inr n"
    by (simp add: struct_unpack_I_def)
  show ?thesis using p u by simp
qed

lemma parse_framed:
  assumes "struct_pack_I (length p) = Inr header"
  shows "parse (header @ p) = Inr \<lparr>size_fp = length p, payload_fp = p\<rparr>"
proof -
  have small: "length p < 2 ^ 32"
    using assms by (simp add: struct_pack_I_def split: if_splits)
  from unpack_pack_I [OF small] assms
  have len: "length header = 4" and u: "struct_unpack_I header = Inr (length p)"
    by auto
  show ?thesis using len u by (simp add: parse_def)
qed

lemma send_frame_sends:
  assumes "client_addr s = Some a" and "transport s"
    and "capture_frame env s = (Inr p, s1)"
    and "struct_pack_I (length p) = Inr header"
  shows "send_frame env s = (None, log_event (SendTo (header @ p) a) s1)"
  using assms by (simp add: send_frame_def)

text \<open>
  Claim C1. A payload \<open>p\<close> no longer than the maximum payload size, for any maximum that
  a 32-bit length can express, is framed by \<^verbatim>\<open>send_frame\<close> as the four-byte big-endian
  length followed by \<open>p\<close>; \<^verbatim>\<open>FramePacket.parse\<close> of that datagram returns a packet whose
  payload is \<open>p\<close> and whose size is \<open>length p\<close>.
\<close>

theorem frame_roundtrip:
  assumes "length p \<le> max_payload" and "max_payload < 2 ^ 32"
    and "client_addr s = Some a" and "transport s"
    and "capture_frame env s = (Inr p, s1)"
  shows "\<exists>header. struct_pack_I (length p) = Inr header
           \<and> send_frame env s = (None, log_event (SendTo (header @ p) a) s1)
           \<and> parse (header @ p) = Inr \<lparr>size_fp = length p, payload_fp = p\<rparr>"
proof -
  have "length p < 2 ^ 32" using assms(1,2) by simp
  then obtain header where h: "struct_pack_I (length p) = Inr header"
    using unpack_pack_I by blast
  show ?thesis
    using h send_frame_sends [OF assms(3,4,5) h] parse_framed [OF h] by blast
qed

theorem frame_roundtrip_witness:
  "struct_pack_I (length [255, 216, 255 :: byte]) = Inr [0, 0, 0, 3]
   \<and> send_frame (example_screen True [255, 216, 255]) registered_server
       = (None, registered_server\<lparr>trace :=
            [Grab (0, 0, 1920, 1080), ImEncode [10, 20, 30],
             SendTo [0, 0, 0, 3, 255, 216, 255] (JString ''192.168.1.5'', 10000)]\<rparr>)
   \<and> parse [0, 0, 0, 3, 255, 216, 255] = Inr \<lparr>size_fp = 3, payload_fp = [255, 216, 255]\<rparr>"
proof -
  let ?p = "[255, 216, 255] :: bytes"
  let ?s1 = "registered_server\<lparr>trace := [Grab (0, 0, 1920, 1080), ImEncode [10, 20, 30]]\<rparr>"
  have len: "length ?p \<le> 65507" by simp
  have bound: "(65507::nat) < 2 ^ 32" by simp
  have addr: "client_addr registered_server = Some (JString ''192.168.1.5'', 10000)"
    by (simp add: registered_server_def)
  have tr: "transport registered_server"
    by (simp add: registered_server_def)
  have cap: "capture_frame (example_screen True ?p) registered_server = (Inr ?p, ?s1)"
    by (simp add: capture_frame_def py_index_def log_event_def example_defs)
  from frame_roundtrip [OF len bound addr tr cap]
  show ?thesis
    by (auto simp: struct_pack_I_def log_event_def)
qed

section \<open>Truncated and oversized packets\<close>

lemma parse_short:
  assumes "length raw < 4"
  shows "parse raw = Inl StructError"
proof -
  have "length (take 4 raw) < 4" using assms by simp
  then have "struct_unpack_I (take 4 raw) = Inl StructError"
    by (auto simp: struct_unpack_I_def split: list.splits)
  then show ?thesis by (simp add: parse_def)
qed

text \<open>
  Claim C4 does not hold of \<^verbatim>\<open>FramePacket.parse\<close>, which has no truncation check. The buffer
  \<^verbatim>\<open>00 00 00 05 01 02\<close> declares five payload bytes and carries two; it is parsed without
  an error, into a packet of size 5 with a two-byte payload.
\<close>

theorem parse_truncated_counterexample:
  "length [0, 0, 0, 5, 1, 2 :: byte] < 4 + 5
   \<and> struct_unpack_I (take 4 [0, 0, 0, 5, 1, 2]) = Inr 5
   \<and> parse [0, 0, 0, 5, 1, 2] = Inr \<lparr>size_fp = 5, payload_fp = [1, 2]\<rparr>"
  by (simp add: parse_def struct_unpack_I_def)

text \<open>
  Claim C4, amended. For every buffer whose four-byte big-endian length field exceeds the
  bytes that follow it, \<^verbatim>\<open>FramePacket.parse\<close> returns a packet and no error: its size is
  the declared length and its payload is all the bytes after the header, fewer than
  declared.
\<close>

theorem parse_truncated:
  assumes "declared = unat b0 * 2 ^ 24 + unat b1 * 2 ^ 16 + unat b2 * 2 ^ 8 + unat b3"
    and "length (b0 # b1 # b2 # b3 # rest) < 4 + declared"
  shows "parse (b0 # b1 # b2 # b3 # rest) = Inr \<lparr>size_fp = declared, payload_fp = rest\<rparr>
         \<and> length rest < declared"
  using assms by (simp add: parse_def struct_unpack_I_def)

theorem parse_truncated_witness:
  "parse [0, 0, 1, 2, 7, 8, 9] = Inr \<lparr>size_fp = 258, payload_fp = [7, 8, 9]\<rparr>
   \<and> length [7, 8, 9 :: byte] < 258"
  using parse_truncated [of 258 0 0 1 2 "[7, 8, 9]"] by simp

text \<open>
  Claim C5 does not hold of \<^verbatim>\<open>send_frame\<close>, which checks the payload against no ceiling.
  A frame of 65508 bytes, one more than the 65507 the specification gives as the ceiling,
  is framed and handed to the transport.
\<close>

theorem payload_ceiling_counterexample:
  "65507 < length (replicate 65508 (0 :: byte))
   \<and> send_frame (example_screen True (replicate 65508 0)) registered_server
       = (None, registered_server\<lparr>trace :=
            [Grab (0, 0, 1920, 1080), ImEncode [10, 20, 30],
             SendTo ([0, 0, 255, 228] @ replicate 65508 0) (JString ''192.168.1.5'', 10000)]\<rparr>)"
  by (simp add: send_frame_def capture_frame_def py_index_def log_event_def struct_pack_I_def
        example_screen_def registered_server_def init_server_def)

text \<open>
  Claim C5, amended. The only limit of the send path is that of the 32-bit length field:
  for every payload of \<open>2 ^ 32\<close> bytes or more, \<^verbatim>\<open>struct.pack\<close> raises \<^verbatim>\<open>struct.error\<close>
  and \<^verbatim>\<open>send_frame\<close> emits no datagram; every shorter payload, however long, is sent
  behind the four-byte header that \<^verbatim>\<open>struct.pack\<close> makes of its length, which reads back
  as that length.
\<close>

theorem send_frame_length_limit:
  assumes "client_addr s = Some a" and "transport s"
    and "capture_frame env s = (Inr p, s1)"
  shows "(2 ^ 32 \<le> length p \<longrightarrow> send_frame env s = (Some StructError, s1))
         \<and> (length p < 2 ^ 32 \<longrightarrow>
              (\<exists>header. struct_pack_I (length p) = Inr header
                 \<and> length header = 4
                 \<and> struct_unpack_I header = Inr (length p)
                 \<and> send_frame env s = (None, log_event (SendTo (header @ p) a) s1)))"
proof (intro conjI impI)
  assume "2 ^ 32 \<le> length p"
  then have "struct_pack_I (length p) = Inl StructError"
    by (simp add: struct_pack_I_def)
  then show "send_frame env s = (Some StructError, s1)"
    using assms by (simp add: send_frame_def)
next
  assume "length p < 2 ^ 32"
  then obtain header where h: "struct_pack_I (length p) = Inr header"
    and l: "length header = 4" and u: "struct_unpack_I header = Inr (length p)"
    using unpack_pack_I by blast
  show "\<exists>header. struct_pack_I (length p) = Inr header
          \<and> length header = 4
          \<and> struct_unpack_I header = Inr (length p)
          \<and> send_frame env s = (None, log_event (SendTo (header @ p) a) s1)"
    using h l u send_frame_sends [OF assms h] by blast
qed

theorem send_frame_length_limit_witness:
  "send_frame (example_screen True (replicate (2 ^ 32) 0)) registered_server
     = (Some StructError,
        registered_server\<lparr>trace := [Grab (0, 0, 1920, 1080), ImEncode [10, 20, 30]]\<rparr>)
   \<and> struct_pack_I (length (replicate 70000 (0 :: byte))) = Inr [0, 1, 17, 112]
   \<and> struct_unpack_I [0, 1, 17, 112] = Inr 70000
   \<and> send_frame (example_screen True (replicate 70000 0)) registered_server
       = (None, registered_server\<lparr>trace :=
            [Grab (0, 0, 1920, 1080), ImEncode [10, 20, 30],
             SendTo ([0, 1, 17, 112] @ replicate 70000 0) (JString ''192.168.1.5'', 10000)]\<rparr>)"
proof -
  let ?s1 = "registered_server\<lparr>trace := [Grab (0, 0, 1920, 1080), ImEncode [10, 20, 30]]\<rparr>"
  have addr: "client_addr registered_server = Some (JString ''192.168.1.5'', 10000)"
    by (simp add: registered_server_def)
  have tr: "transport registered_server"
    by (simp add: registered_server_def)
  have cap: "capture_frame (example_screen True p) registered_server = (Inr p, ?s1)" for p
    by (simp add: capture_frame_def py_index_def log_event_def example_screen_def
          registered_server_def init_server_def)
  have big: "send_frame (example_screen True (replicate (2 ^ 32) 0)) registered_server
               = (Some StructError, ?s1)"
    using send_frame_length_limit [OF addr tr cap [of "replicate (2 ^ 32) 0"]] by simp
  have pk: "struct_pack_I 70000 = Inr [0, 1, 17, 112]"
    by (simp add: struct_pack_I_def)
  have small: "struct_unpack_I [0, 1, 17, 112] = Inr 70000
         \<and> send_frame (example_screen True (replicate 70000 0)) registered_server
             = (None, log_event (SendTo ([0, 1, 17, 112] @ replicate 70000 0)
                                   (JString ''192.168.1.5'', 10000)) ?s1)"
    using send_frame_length_limit [OF addr tr cap [of "replicate 70000 0"]] pk by auto
  show ?thesis using big small pk by (simp add: log_event_def)
qed

section \<open>The send loop\<close>

lemma capture_frame_ok:
  assumes "py_index (monitors env) (monitor s) = Inr mon"
    and "grab env mon = Inr img"
    and "imencode env (cvtColor env img) = (True, frame)"
  shows "capture_frame env s
           = (Inr frame, s\<lparr>trace := trace s @ [Grab mon, ImEncode (cvtColor env img)]\<rparr>)"
  using assms by (simp add: capture_frame_def log_event_def)

text \<open>
  Claim C7. A tick of the send loop on a server with no registered endpoint returns at
  once: nothing is grabbed, encoded or sent, and the server is unchanged. A tick with a
  registered endpoint, on the transport that \<^verbatim>\<open>start\<close> has stored, grabs the monitor,
  encodes the image, frames the encoded bytes and sends exactly one datagram, to the
  endpoint registered at that moment; these four calls are all that the tick does.
\<close>

theorem send_frame_tick:
  "(client_addr s = None \<longrightarrow> send_frame env s = (None, s))
   \<and> (client_addr s = Some a \<and> transport s
        \<and> py_index (monitors env) (monitor s) = Inr mon
        \<and> grab env mon = Inr img
        \<and> imencode env (cvtColor env img) = (True, frame)
        \<and> length frame < 2 ^ 32
      \<longrightarrow> (\<exists>header. struct_pack_I (length frame) = Inr header
             \<and> send_frame env s
                 = (None, s\<lparr>trace := trace s @ [Grab mon, ImEncode (cvtColor env img),
                                                 SendTo (header @ frame) a]\<rparr>)))"
proof (intro conjI impI)
  assume "client_addr s = None"
  then show "send_frame env s = (None, s)"
    by (simp add: send_frame_def)
next
  assume h: "client_addr s = Some a \<and> transport s
        \<and> py_index (monitors env) (monitor s) = Inr mon
        \<and> grab env mon = Inr img
        \<and> imencode env (cvtColor env img) = (True, frame)
        \<and> length frame < 2 ^ 32"
  then obtain header where p: "struct_pack_I (length frame) = Inr header"
    using unpack_pack_I by blast
  have cap: "capture_frame env s
           = (Inr frame, s\<lparr>trace := trace s @ [Grab mon, ImEncode (cvtColor env img)]\<rparr>)"
    using h by (simp add: capture_frame_ok)
  have "send_frame env s
          = (None, log_event (SendTo (header @ frame) a)
                     (s\<lparr>trace := trace s @ [Grab mon, ImEncode (cvtColor env img)]\<rparr>))"
    using h send_frame_sends [OF _ _ cap p] by simp
  then show "\<exists>header. struct_pack_I (length frame) = Inr header
             \<and> send_frame env s
                 = (None, s\<lparr>trace := trace s @ [Grab mon, ImEncode (cvtColor env img),
                                                 SendTo (header @ frame) a]\<rparr>)"
    using p by (auto simp: log_event_def)
qed

theorem send_frame_tick_witness:
  "send_frame (example_screen True [255, 216, 255]) init_server = (None, init_server)
   \<and> send_frame (example_screen True [255, 216, 255]) registered_server
       = (None, registered_server\<lparr>trace :=
            [Grab (0, 0, 1920, 1080), ImEncode [10, 20, 30],
             SendTo [0, 0, 0, 3, 255, 216, 255] (JString ''192.168.1.5'', 10000)]\<rparr>)"
proof -
  have none: "client_addr init_server = None"
    by (simp add: init_server_def)
  have reg: "client_addr registered_server = Some (JString ''192.168.1.5'', 10000)
        \<and> transport registered_server
        \<and> py_index (monitors (example_screen True [255, 216, 255])) (monitor registered_server)
            = Inr (0, 0, 1920, 1080)
        \<and> grab (example_screen True [255, 216, 255]) (0, 0, 1920, 1080) = Inr [10, 20, 30, 255]
        \<and> imencode (example_screen True [255, 216, 255])
             (cvtColor (example_screen True [255, 216, 255]) [10, 20, 30, 255])
            = (True, [255, 216, 255])
        \<and> length [255, 216, 255 :: byte] < 2 ^ 32"
    by (simp add: registered_server_def init_server_def example_screen_def py_index_def)
  from send_frame_tick [of init_server "example_screen True [255, 216, 255]"] none
  have first: "send_frame (example_screen True [255, 216, 255]) init_server = (None, init_server)"
    by simp
  from send_frame_tick [of registered_server "example_screen True [255, 216, 255]"
      "(JString ''192.168.1.5'', 10000)" "(0, 0, 1920, 1080)" "[10, 20, 30, 255]" "[255, 216, 255]"] reg
  have second: "\<exists>header. struct_pack_I (length [255, 216, 255 :: byte]) = Inr header
             \<and> send_frame (example_screen True [255, 216, 255]) registered_server
                 = (None, registered_server\<lparr>trace := trace registered_server
                      @ [Grab (0, 0, 1920, 1080),
                         ImEncode (cvtColor (example_screen True [255, 216, 255]) [10, 20, 30, 255]),
                         SendTo (header @ [255, 216, 255]) (JString ''192.168.1.5'', 10000)]\<rparr>)"
    by blast
  show ?thesis
    using first second
    by (auto simp: struct_pack_I_def registered_server_def init_server_def example_screen_def)
qed

lemma send_loop_append:
  "send_loop (pre @ rest) s =
     (case send_loop pre s of (Some e, s') \<Rightarrow> (Some e, s') | (None, s') \<Rightarrow> send_loop rest s')"
  by (induction pre arbitrary: s) (auto split: prod.splits option.splits)

lemma send_frame_raises:
  assumes "client_addr s = Some a" and "transport s"
    and "capture_frame env s = (Inl e, s1)"
  shows "send_frame env s = (Some e, s1)"
  using assms by (simp add: send_frame_def)

lemma capture_frame_encode_fails:
  assumes "py_index (monitors env) (monitor s) = Inr mon"
    and "grab env mon = Inr img"
    and "imencode env (cvtColor env img) = (False, encoded)"
  shows "capture_frame env s
           = (Inl RuntimeError, s\<lparr>trace := trace s @ [Grab mon, ImEncode (cvtColor env img)]\<rparr>)"
  using assms by (simp add: capture_frame_def log_event_def)

lemma capture_frame_grab_fails:
  assumes "py_index (monitors env) (monitor s) = Inr mon"
    and "grab env mon = Inl e"
  shows "capture_frame env s = (Inl e, s\<lparr>trace := trace s @ [Grab mon]\<rparr>)"
  using assms by (simp add: capture_frame_def log_event_def)

text \<open>
  Claim C8 does not hold of \<^verbatim>\<open>start\<close>, whose loop catches nothing. With a registered
  endpoint, a first tick whose encoding fails ends \<^verbatim>\<open>start\<close> with the \<^verbatim>\<open>RuntimeError\<close> of
  \<^verbatim>\<open>capture_frame\<close>: the second tick, which would have sent a frame, never runs.
\<close>

theorem capture_failure_counterexample:
  "start [example_screen False [], example_screen True [255, 216, 255]] registered_server
     = (Some RuntimeError,
        registered_server\<lparr>trace :=
          [LogInfo (ServerReady ''0.0.0.0'' 9999 ''0.0.0.0'' 8765),
           Grab (0, 0, 1920, 1080), ImEncode [10, 20, 30]]\<rparr>)
   \<and> start [example_screen True [255, 216, 255]] registered_server
     = (None,
        registered_server\<lparr>trace :=
          [LogInfo (ServerReady ''0.0.0.0'' 9999 ''0.0.0.0'' 8765),
           Grab (0, 0, 1920, 1080), ImEncode [10, 20, 30],
           SendTo [0, 0, 0, 3, 255, 216, 255] (JString ''192.168.1.5'', 10000), Sleep]\<rparr>)"
  by (simp add: start_def send_frame_def capture_frame_def py_index_def log_event_def
        struct_pack_I_def example_screen_def registered_server_def init_server_def)

text \<open>
  Claim C8, amended. For every tick in which capture or encoding fails, the exception of
  \<^verbatim>\<open>capture_frame\<close> leaves \<^verbatim>\<open>send_frame\<close> and the loop of \<^verbatim>\<open>start\<close>: the loop ends at
  that tick with that exception, and none of the ticks that would have followed runs.
\<close>

theorem capture_failure_ends_loop:
  assumes "send_loop earlier s = (None, s')"
    and "client_addr s' = Some a" and "transport s'"
    and "capture_frame env s' = (Inl e, s1)"
  shows "send_frame env s' = (Some e, s1)
         \<and> send_loop (earlier @ env # later) s = (Some e, s1)"
  using assms send_frame_raises [OF assms(2,3,4)]
  by (simp add: send_loop_append)

theorem capture_failure_ends_loop_witness:
  "send_frame (example_screen False []) (log_event Sleep
       (registered_server\<lparr>trace :=
            [Grab (0, 0, 1920, 1080), ImEncode [10, 20, 30],
             SendTo [0, 0, 0, 3, 255, 216, 255] (JString ''192.168.1.5'', 10000)]\<rparr>))
     = (Some RuntimeError,
        registered_server\<lparr>trace :=
            [Grab (0, 0, 1920, 1080), ImEncode [10, 20, 30],
             SendTo [0, 0, 0, 3, 255, 216, 255] (JString ''192.168.1.5'', 10000), Sleep,
             Grab (0, 0, 1920, 1080), ImEncode [10, 20, 30]]\<rparr>)
   \<and> send_loop [example_screen True [255, 216, 255], example_screen False [],
                 example_screen True [255, 216, 255]] registered_server
     = (Some RuntimeError,
        registered_server\<lparr>trace :=
            [Grab (0, 0, 1920, 1080), ImEncode [10, 20, 30],
             SendTo [0, 0, 0, 3, 255, 216, 255] (JString ''192.168.1.5'', 10000), Sleep,
             Grab (0, 0, 1920, 1080), ImEncode [10, 20, 30]]\<rparr>)"
proof -
  let ?ok = "example_screen True [255, 216, 255]"
  let ?bad = "example_screen False []"
  let ?s' = "log_event Sleep
       (registered_server\<lparr>trace :=
            [Grab (0, 0, 1920, 1080), ImEncode [10, 20, 30],
             SendTo [0, 0, 0, 3, 255, 216, 255] (JString ''192.168.1.5'', 10000)]\<rparr>)"
  let ?s1 = "registered_server\<lparr>trace :=
            [Grab (0, 0, 1920, 1080), ImEncode [10, 20, 30],
             SendTo [0, 0, 0, 3, 255, 216, 255] (JString ''192.168.1.5'', 10000), Sleep,
             Grab (0, 0, 1920, 1080), ImEncode [10, 20, 30]]\<rparr>"
  have pre: "send_loop [?ok] registered_server = (None, ?s')"
    by (simp add: send_frame_def capture_frame_def py_index_def log_event_def
          struct_pack_I_def example_screen_def registered_server_def init_server_def)
  have addr: "client_addr ?s' = Some (JString ''192.168.1.5'', 10000)"
    by (simp add: registered_server_def log_event_def)
  have tr: "transport ?s'"
    by (simp add: registered_server_def log_event_def)
  have cap: "capture_frame ?bad ?s' = (Inl RuntimeError, ?s1)"
    by (simp add: capture_frame_def py_index_def log_event_def example_screen_def
          registered_server_def init_server_def)
  from capture_failure_ends_loop [OF pre addr tr cap, of "[?ok]"]
  show ?thesis by simp
qed

section \<open>The control channel\<close>

lemma handle_message_register:
  assumes "from_json loads m = Inr \<lparr>type_cm = JString ''register'', payload_cm = JObject kvs\<rparr>"
    and "got = (case map_of kvs ''host'' of None \<Rightarrow> JNull | Some h \<Rightarrow> h)"
    and "host = (if truthy got then got else JString (fst remote_address))"
    and "map_of kvs ''port'' = Some v" and "py_int int_of_str v = Inr port"
  shows "handle_message loads int_of_str remote_address m s
           = (None, s\<lparr>client_addr := Some (host, port),
                        trace := trace s @ [LogInfo (RegisteredEndpoint (host, port))]\<rparr>)"
  using assms by (simp add: handle_message_def log_event_def Let_def)

text \<open>
  Claim C2. When a connection delivers a register message and then a second one, each
  with a port that \<^verbatim>\<open>int\<close> converts and with or without a host of its own, the handler
  raises nothing and the registered endpoint is \<open>(h2, p2)\<close>, the host and port of the
  second message (the peer's address where the message names no host, as in the message
  the client sends); the next tick of the send loop sends its one datagram to \<open>(h2, p2)\<close>.
\<close>

theorem registration_overwrite:
  assumes "from_json loads m1 = Inr \<lparr>type_cm = JString ''register'', payload_cm = JObject kvs1\<rparr>"
    and "got1 = (case map_of kvs1 ''host'' of None \<Rightarrow> JNull | Some h \<Rightarrow> h)"
    and "h1 = (if truthy got1 then got1 else JString (fst remote_address))"
    and "map_of kvs1 ''port'' = Some v1" and "py_int int_of_str v1 = Inr p1"
    and "from_json loads m2 = Inr \<lparr>type_cm = JString ''register'', payload_cm = JObject kvs2\<rparr>"
    and "got2 = (case map_of kvs2 ''host'' of None \<Rightarrow> JNull | Some h \<Rightarrow> h)"
    and "h2 = (if truthy got2 then got2 else JString (fst remote_address))"
    and "map_of kvs2 ''port'' = Some v2" and "py_int int_of_str v2 = Inr p2"
    and "transport s"
    and "capture_frame env
           (snd (handle_control loads int_of_str remote_address [m1, m2] s)) = (Inr frame, s3)"
    and "length frame < 2 ^ 32"
  shows "fst (handle_control loads int_of_str remote_address [m1, m2] s) = None
         \<and> client_addr (snd (handle_control loads int_of_str remote_address [m1, m2] s))
             = Some (h2, p2)
         \<and> (\<exists>header. struct_pack_I (length frame) = Inr header
               \<and> send_frame env (snd (handle_control loads int_of_str remote_address [m1, m2] s))
                   = (None, log_event (SendTo (header @ frame) (h2, p2)) s3))"
proof -
  define s0 where "s0 = log_event (LogInfo (ControlClientConnected remote_address)) s"
  define s1 where "s1 = s0\<lparr>client_addr := Some (h1, p1),
                        trace := trace s0 @ [LogInfo (RegisteredEndpoint (h1, p1))]\<rparr>"
  define s2 where "s2 = s1\<lparr>client_addr := Some (h2, p2),
                        trace := trace s1 @ [LogInfo (RegisteredEndpoint (h2, p2))]\<rparr>"
  have 1: "handle_message loads int_of_str remote_address m1 s0 = (None, s1)"
    unfolding s1_def by (rule handle_message_register [OF assms(1-5)])
  have 2: "handle_message loads int_of_str remote_address m2 s1 = (None, s2)"
    unfolding s2_def by (rule handle_message_register [OF assms(6-10)])
  have run: "handle_control loads int_of_str remote_address [m1, m2] s = (None, s2)"
    using 1 2 by (simp add: handle_control_def s0_def)
  have addr: "client_addr s2 = Some (h2, p2)"
    by (simp add: s2_def)
  have tr: "transport s2"
    using assms(11) by (simp add: s2_def s1_def s0_def log_event_def)
  have cap: "capture_frame env s2 = (Inr frame, s3)"
    using assms(12) run by simp
  obtain header where h: "struct_pack_I (length frame) = Inr header"
    using unpack_pack_I [OF assms(13)] by blast
  show ?thesis
    using run addr h send_frame_sends [OF addr tr cap h] by auto
qed

theorem registration_overwrite_witness:
  "fst (handle_control example_loads example_int_of_str example_peer
          [msg_register_host, msg_register] (init_server\<lparr>transport := True\<rparr>)) = None
   \<and> client_addr (snd (handle_control example_loads example_int_of_str example_peer
          [msg_register_host, msg_register] (init_server\<lparr>transport := True\<rparr>)))
       = Some (JString ''192.168.1.5'', 10000)
   \<and> struct_pack_I (length [255, 216, 255 :: byte]) = Inr [0, 0, 0, 3]
   \<and> send_frame (example_screen True [255, 216, 255])
        (snd (handle_control example_loads example_int_of_str example_peer
           [msg_register_host, msg_register] (init_server\<lparr>transport := True\<rparr>)))
      = (None,
         init_server\<lparr>transport := True, client_addr := Some (JString ''192.168.1.5'', 10000),
           trace :=
             [LogInfo (ControlClientConnected (''192.168.1.5'', 54321)),
              LogInfo (RegisteredEndpoint (JString ''10.0.0.7'', 10001)),
              LogInfo (RegisteredEndpoint (JString ''192.168.1.5'', 10000)),
              Grab (0, 0, 1920, 1080), ImEncode [10, 20, 30],
              SendTo [0, 0, 0, 3, 255, 216, 255] (JString ''192.168.1.5'', 10000)]\<rparr>)"
proof -
  let ?kvs1 = "[(''host'', JString ''10.0.0.7''), (''port'', JInt 10001)]"
  let ?kvs2 = "[(''host'', JNull), (''port'', JInt 10000)]"
  let ?s = "init_server\<lparr>transport := True\<rparr>"
  let ?s3 = "init_server\<lparr>transport := True, client_addr := Some (JString ''192.168.1.5'', 10000),
                 trace :=
                   [LogInfo (ControlClientConnected (''192.168.1.5'', 54321)),
                    LogInfo (RegisteredEndpoint (JString ''10.0.0.7'', 10001)),
                    LogInfo (RegisteredEndpoint (JString ''192.168.1.5'', 10000)),
                    Grab (0, 0, 1920, 1080), ImEncode [10, 20, 30]]\<rparr>"
  have j1: "from_json example_loads msg_register_host
              = Inr \<lparr>type_cm = JString ''register'', payload_cm = JObject ?kvs1\<rparr>"
    by (simp add: from_json_def example_defs)
  have j2: "from_json example_loads msg_register
              = Inr \<lparr>type_cm = JString ''register'', payload_cm = JObject ?kvs2\<rparr>"
    by (simp add: from_json_def example_defs)
  have g1: "JString ''10.0.0.7'' = (case map_of ?kvs1 ''host'' of None \<Rightarrow> JNull | Some h \<Rightarrow> h)"
    by simp
  have h1: "JString ''10.0.0.7''
              = (if truthy (JString ''10.0.0.7'') then JString ''10.0.0.7''
                 else JString (fst example_peer))"
    by simp
  have p1: "map_of ?kvs1 ''port'' = Some (JInt 10001)" by simp
  have i1: "py_int example_int_of_str (JInt 10001) = Inr 10001" by simp
  have g2: "JNull = (case map_of ?kvs2 ''host'' of None \<Rightarrow> JNull | Some h \<Rightarrow> h)"
    by simp
  have h2: "JString ''192.168.1.5''
              = (if truthy JNull then JNull else JString (fst example_peer))"
    by (simp add: example_peer_def)
  have p2: "map_of ?kvs2 ''port'' = Some (JInt 10000)" by simp
  have i2: "py_int example_int_of_str (JInt 10000) = Inr 10000" by simp
  have tr: "transport ?s" by simp
  have cap: "capture_frame (example_screen True [255, 216, 255])
           (snd (handle_control example_loads example_int_of_str example_peer
              [msg_register_host, msg_register] ?s)) = (Inr [255, 216, 255], ?s3)"
    by (simp add: handle_control_def handle_message_def from_json_def capture_frame_def Let_def
          py_index_def log_event_def example_defs)
  have len: "length [255, 216, 255 :: byte] < 2 ^ 32" by simp
  have pk: "struct_pack_I (length [255, 216, 255 :: byte]) = Inr [0, 0, 0, 3]"
    by (simp add: struct_pack_I_def)
  from registration_overwrite [OF j1 g1 h1 p1 i1 j2 g2 h2 p2 i2 tr cap len] pk
  show ?thesis
    by (auto simp: log_event_def)
qed

text \<open>
  Claim C9. A command message is passed to \<^verbatim>\<open>apply_control\<close> once, as the control message
  with the payload it carried; \<^verbatim>\<open>apply_control\<close> logs it and the registered endpoint is
  as before.
\<close>

theorem command_relay:
  assumes "loads m = Inr (JObject kvs)"
    and "map_of kvs ''type'' = Some (JString ''command'')"
    and "map_of kvs ''payload'' = Some payload"
  shows "handle_message loads int_of_str remote_address m s
           = (None, apply_control \<lparr>type_cm = JString ''command'', payload_cm = payload\<rparr> s)
         \<and> trace (apply_control \<lparr>type_cm = JString ''command'', payload_cm = payload\<rparr> s)
             = trace s @ [LogDebug (ReceivedControlCommand
                                     \<lparr>type_cm = JString ''command'', payload_cm = payload\<rparr>)]
         \<and> client_addr (apply_control \<lparr>type_cm = JString ''command'', payload_cm = payload\<rparr> s)
             = client_addr s"
  using assms by (simp add: handle_message_def from_json_def apply_control_def log_event_def)

theorem command_relay_witness:
  "handle_message example_loads example_int_of_str example_peer msg_command registered_server
     = (None, apply_control \<lparr>type_cm = JString ''command'',
                             payload_cm = JObject [(''raw'', JString ''click:100,200'')]\<rparr>
                registered_server)
   \<and> trace (apply_control \<lparr>type_cm = JString ''command'',
                           payload_cm = JObject [(''raw'', JString ''click:100,200'')]\<rparr>
              registered_server)
       = [LogDebug (ReceivedControlCommand
                      \<lparr>type_cm = JString ''command'',
                       payload_cm = JObject [(''raw'', JString ''click:100,200'')]\<rparr>)]
   \<and> client_addr (apply_control \<lparr>type_cm = JString ''command'',
                           payload_cm = JObject [(''raw'', JString ''click:100,200'')]\<rparr>
              registered_server)
       = Some (JString ''192.168.1.5'', 10000)"
proof -
  let ?kvs = "[(''type'', JString ''command''),
               (''payload'', JObject [(''raw'', JString ''click:100,200'')])]"
  have l: "example_loads msg_command = Inr (JObject ?kvs)"
    by (simp add: example_defs)
  have t: "map_of ?kvs ''type'' = Some (JString ''command'')" by simp
  have p: "map_of ?kvs ''payload'' = Some (JObject [(''raw'', JString ''click:100,200'')])"
    by simp
  from command_relay [of example_loads msg_command ?kvs
      "JObject [(''raw'', JString ''click:100,200'')]" example_int_of_str example_peer
      registered_server, OF l t p]
  show ?thesis by (simp add: registered_server_def init_server_def)
qed

lemma handle_message_error_unchanged:
  assumes "handle_message loads int_of_str remote_address m s = (Some e, s')"
  shows "s' = s"
  using assms
  by (auto simp: handle_message_def Let_def
      split: sum.splits if_splits json.splits option.splits)

text \<open>
  Claim C10. A register message whose payload has no \<^verbatim>\<open>port\<close> raises \<^verbatim>\<open>KeyError\<close>, and
  one whose port \<^verbatim>\<open>int\<close> does not convert raises the exception of \<^verbatim>\<open>int\<close>; both are
  raised before the endpoint is assigned, so the server, and with it the endpoint
  registered before (or none), is unchanged.
\<close>

theorem register_without_port:
  assumes "from_json loads m = Inr c" and "type_cm c = JString ''register''"
    and "payload_cm c = JObject kvs"
  shows "(map_of kvs ''port'' = None \<longrightarrow>
            handle_message loads int_of_str remote_address m s = (Some KeyError, s))
         \<and> (map_of kvs ''port'' = Some v \<and> py_int int_of_str v = Inl e \<longrightarrow>
            handle_message loads int_of_str remote_address m s = (Some e, s))"
  using assms by (simp add: handle_message_def Let_def)

theorem register_without_port_witness:
  "handle_message example_loads example_int_of_str example_peer msg_no_port registered_server
     = (Some KeyError, registered_server)
   \<and> handle_message example_loads example_int_of_str example_peer msg_bad_port registered_server
     = (Some ValueError, registered_server)"
proof -
  let ?c1 = "\<lparr>type_cm = JString ''register'',
              payload_cm = JObject [(''host'', JString ''10.0.0.7'')]\<rparr>"
  let ?c2 = "\<lparr>type_cm = JString ''register'',
              payload_cm = JObject [(''port'', JString ''abc'')]\<rparr>"
  have j1: "from_json example_loads msg_no_port = Inr ?c1"
    by (simp add: from_json_def example_defs)
  have j2: "from_json example_loads msg_bad_port = Inr ?c2"
    by (simp add: from_json_def example_defs)
  have t1: "type_cm ?c1 = JString ''register''" by simp
  have t2: "type_cm ?c2 = JString ''register''" by simp
  have p1: "payload_cm ?c1 = JObject [(''host'', JString ''10.0.0.7'')]" by simp
  have p2: "payload_cm ?c2 = JObject [(''port'', JString ''abc'')]" by simp
  have no: "map_of [(''host'', JString ''10.0.0.7'')] ''port'' = None" by simp
  have bad: "map_of [(''port'', JString ''abc'')] ''port'' = Some (JString ''abc'')
             \<and> py_int example_int_of_str (JString ''abc'') = Inl ValueError"
    by (simp add: example_int_of_str_def)
  from register_without_port [OF j1 t1 p1, of example_int_of_str example_peer registered_server] no
  have 1: "handle_message example_loads example_int_of_str example_peer msg_no_port
             registered_server = (Some KeyError, registered_server)"
    by blast
  from register_without_port [OF j2 t2 p2, of example_int_of_str example_peer registered_server
      "JString ''abc''" ValueError] bad
  have 2: "handle_message example_loads example_int_of_str example_peer msg_bad_port
             registered_server = (Some ValueError, registered_server)"
    by blast
  show ?thesis using 1 2 by blast
qed

text \<open>
  Claim C3 does not hold of \<^verbatim>\<open>handle_control\<close>, which neither catches the exceptions of
  \<^verbatim>\<open>ControlMessage.from_json\<close> nor looks at a message type other than \<^verbatim>\<open>register\<close>.
  A text that is not JSON ends the handler with \<^verbatim>\<open>JSONDecodeError\<close>, and the register
  message behind it, which the handler would have obeyed, is never read. A message of the
  unknown type \<^verbatim>\<open>bogus\<close> is given to \<^verbatim>\<open>apply_control\<close> as a command is.
\<close>

theorem malformed_control_counterexample:
  "handle_control example_loads example_int_of_str example_peer
       [msg_garbage, msg_register] init_server
     = (Some JSONDecodeError,
        init_server\<lparr>trace := [LogInfo (ControlClientConnected (''192.168.1.5'', 54321))]\<rparr>)
   \<and> handle_control example_loads example_int_of_str example_peer [msg_register] init_server
     = (None,
        init_server\<lparr>client_addr := Some (JString ''192.168.1.5'', 10000),
          trace := [LogInfo (ControlClientConnected (''192.168.1.5'', 54321)),
                    LogInfo (RegisteredEndpoint (JString ''192.168.1.5'', 10000))]\<rparr>)
   \<and> handle_message example_loads example_int_of_str example_peer msg_bogus init_server
     = (None, apply_control \<lparr>type_cm = JString ''bogus'', payload_cm = JObject []\<rparr> init_server)"
  by (simp add: handle_control_def handle_message_def from_json_def log_event_def Let_def
        example_defs)

text \<open>
  Claim C3, amended. For every message on which \<^verbatim>\<open>ControlMessage.from_json\<close> raises (the
  text is not JSON, or is not an object with a \<^verbatim>\<open>type\<close>), the exception ends the handler:
  the server is unchanged and no later message of the connection is processed. Every
  message whose type is not \<^verbatim>\<open>register\<close>, an unknown type included, is passed to
  \<^verbatim>\<open>apply_control\<close> as a command, and the handler goes on to the next message.
\<close>

theorem malformed_control_handling:
  "(from_json loads m = Inl e \<longrightarrow>
      handle_control_loop loads int_of_str remote_address (m # rest) s = (Some e, s))
   \<and> (from_json loads m = Inr c \<and> type_cm c \<noteq> JString ''register'' \<longrightarrow>
      handle_message loads int_of_str remote_address m s = (None, apply_control c s)
      \<and> handle_control_loop loads int_of_str remote_address (m # rest) s
          = handle_control_loop loads int_of_str remote_address rest (apply_control c s))"
  by (simp add: handle_message_def)

theorem malformed_control_handling_witness:
  "handle_control_loop example_loads example_int_of_str example_peer
       [msg_garbage, msg_register] init_server = (Some JSONDecodeError, init_server)
   \<and> handle_message example_loads example_int_of_str example_peer msg_bogus init_server
       = (None, apply_control \<lparr>type_cm = JString ''bogus'', payload_cm = JObject []\<rparr> init_server)
   \<and> handle_control_loop example_loads example_int_of_str example_peer
       [msg_bogus, msg_register] init_server
       = handle_control_loop example_loads example_int_of_str example_peer [msg_register]
           (apply_control \<lparr>type_cm = JString ''bogus'', payload_cm = JObject []\<rparr> init_server)"
proof -
  have bad: "from_json example_loads msg_garbage = Inl JSONDecodeError"
    by (simp add: from_json_def example_defs)
  have bogus: "from_json example_loads msg_bogus
                 = Inr \<lparr>type_cm = JString ''bogus'', payload_cm = JObject []\<rparr>
               \<and> type_cm \<lparr>type_cm = JString ''bogus'', payload_cm = JObject []\<rparr>
                   \<noteq> JString ''register''"
    by (simp add: from_json_def example_defs)
  from malformed_control_handling [of example_loads msg_garbage JSONDecodeError
      example_int_of_str example_peer "[msg_register]" init_server] bad
  have 1: "handle_control_loop example_loads example_int_of_str example_peer
       [msg_garbage, msg_register] init_server = (Some JSONDecodeError, init_server)"
    by blast
  from malformed_control_handling [of example_loads msg_bogus _ example_int_of_str example_peer
      "[msg_register]" init_server "\<lparr>type_cm = JString ''bogus'', payload_cm = JObject []\<rparr>"] bogus
  have 2: "handle_message example_loads example_int_of_str example_peer msg_bogus init_server
       = (None, apply_control \<lparr>type_cm = JString ''bogus'', payload_cm = JObject []\<rparr> init_server)
   \<and> handle_control_loop example_loads example_int_of_str example_peer
       [msg_bogus, msg_register] init_server
       = handle_control_loop example_loads example_int_of_str example_peer [msg_register]
           (apply_control \<lparr>type_cm = JString ''bogus'', payload_cm = JObject []\<rparr> init_server)"
    by blast
  show ?thesis using 1 2 by blast
qed

section \<open>The client's receive loop\<close>

lemma receive_frames_short:
  assumes "length data < 4"
  shows "receive_frames imdecode (data # rest) shown = (Some StructError, shown)"
  using parse_short [OF assms] by simp

text \<open>
  Claim C6 does not hold of \<^verbatim>\<open>receive_frames\<close> for every malformed datagram. A datagram
  of three bytes makes \<^verbatim>\<open>FramePacket.parse\<close> raise \<^verbatim>\<open>struct.error\<close>, which ends the loop:
  the well-formed datagram behind it, which alone would have been displayed, is not.
\<close>

theorem corrupt_frame_counterexample:
  "receive_frames example_imdecode [[0, 0, 1], [0, 0, 0, 3, 255, 216, 255]] []
     = (Some StructError, [])
   \<and> receive_frames example_imdecode [[0, 0, 0, 3, 255, 216, 255]] []
     = (None, [ImShow [10, 20, 30], WaitKey])"
  by (simp add: parse_def struct_unpack_I_def display_frame_def example_imdecode_def)

text \<open>
  Claim C6, amended. For every datagram that \<^verbatim>\<open>FramePacket.parse\<close> accepts and whose
  payload decodes to \<^verbatim>\<open>None\<close>, followed by a well-formed datagram, the receive loop raises
  nothing, displays exactly one frame, the second datagram's, and goes on to the
  datagrams that follow.
\<close>

theorem corrupt_frame_dropped:
  assumes "parse bad = Inr pb" and "imdecode (payload_fp pb) = Inr None"
    and "parse good = Inr pg" and "imdecode (payload_fp pg) = Inr (Some img)"
  shows "receive_frames imdecode [bad, good] shown = (None, shown @ [ImShow img, WaitKey])
         \<and> receive_frames imdecode (bad # good # rest) shown
             = receive_frames imdecode rest (shown @ [ImShow img, WaitKey])"
  using assms by (simp add: display_frame_def)

theorem corrupt_frame_dropped_witness:
  "receive_frames example_imdecode [[0, 0, 0, 2, 9, 9], [0, 0, 0, 3, 255, 216, 255]] []
     = (None, [ImShow [10, 20, 30], WaitKey])
   \<and> receive_frames example_imdecode
       [[0, 0, 0, 2, 9, 9], [0, 0, 0, 3, 255, 216, 255], [0, 0, 0, 3, 255, 216, 255]] []
     = receive_frames example_imdecode [[0, 0, 0, 3, 255, 216, 255]] [ImShow [10, 20, 30], WaitKey]"
proof -
  have b: "parse [0, 0, 0, 2, 9, 9] = Inr \<lparr>size_fp = 2, payload_fp = [9, 9]\<rparr>"
    by (simp add: parse_def struct_unpack_I_def)
  have bd: "example_imdecode (payload_fp \<lparr>size_fp = 2, payload_fp = [9, 9]\<rparr>) = Inr None"
    by (simp add: example_imdecode_def)
  have g: "parse [0, 0, 0, 3, 255, 216, 255] = Inr \<lparr>size_fp = 3, payload_fp = [255, 216, 255]\<rparr>"
    by (simp add: parse_def struct_unpack_I_def)
  have gd: "example_imdecode (payload_fp \<lparr>size_fp = 3, payload_fp = [255, 216, 255]\<rparr>)
              = Inr (Some [10, 20, 30])"
    by (simp add: example_imdecode_def)
  from corrupt_frame_dropped [OF b bd g gd, of "[]" "[[0, 0, 0, 3, 255, 216, 255]]"]
  show ?thesis by simp
qed

end
